theory Spec2Isabelle
  imports Main
begin

section \<open>Python values\<close>

text \<open>
  The replay parser works on two kinds of text. A \<open>bytes\<close> object is a sequence of
  8-bit values and is modelled by \<open>string\<close>: one \<open>char\<close> per byte, so that
  \<open>b"GENREP"\<close> is \<open>''GENREP''\<close>. A \<open>str\<close> object is a sequence of Unicode
  code points and is modelled by a list of naturals; the literal \<open>"GENREP"\<close> is
  \<open>ascii ''GENREP''\<close>. Python integers are unbounded and are modelled by \<open>int\<close>.
\<close>

type_synonym bytes = string
type_synonym str = "nat list"

abbreviation ord :: "char \<Rightarrow> nat" where
  "ord \<equiv> of_char"

abbreviation ascii :: "string \<Rightarrow> str" where
  "ascii \<equiv> map of_char"

abbreviation NUL :: char where
  "NUL \<equiv> CHR 0x00"

subsection \<open>Exceptions\<close>

text \<open>
  The parser has one exception class of its own, \<open>ReplayParserException\<close>, raised at
  five places with five different messages; the message is kept as a datatype with the
  interpolated value. The remaining constructors of \<open>error\<close> are the exceptions that
  the Python runtime raises inside the calls the source makes: \<open>struct.error\<close> from
  \<open>struct.unpack\<close> on a short buffer, \<open>ValueError\<close> from \<open>int(...)\<close> and from
  unpacking a list of the wrong length, \<open>IndexError\<close> from indexing,
  \<open>UnicodeDecodeError\<close> from \<open>bytes.decode\<close>, \<open>FileNotFoundError\<close> from \<open>open\<close>
  and \<open>OverflowError\<close> from binding an integer outside 64 bits to an SQLite statement.
\<close>

datatype GameType = GENERALS | BFME | BFME2

datatype ReplaySlotType = EMPTY | HUMAN | COMPUTER

datatype ReplaySlotDifficulty = EASY | MEDIUM | HARD

datatype message =
    invalid_replay_slot_type nat
  | invalid_replay_slot_difficulty nat
  | Unexpected_replay_metadata_key str
  | not_implemented_yet GameType
  | Unrecognized_replay_type str

datatype value_error =
    not_enough_values_to_unpack
  | invalid_literal_for_int nat str

datatype error =
    ReplayParserException message
  | struct_error
  | ValueError value_error
  | IndexError
  | UnicodeDecodeError
  | FileNotFoundError
  | OverflowError



text \<open>Sequencing of computations that may raise: the first exception wins.\<close>

definition and_then :: "error + 'a \<Rightarrow> ('a \<Rightarrow> error + 'b) \<Rightarrow> error + 'b" where
  "and_then r f = (case r of Inl e \<Rightarrow> Inl e | Inr v \<Rightarrow> f v)"

subsection \<open>Library functions on \<open>str\<close> and \<open>bytes\<close>\<close>

text \<open>\<open>s.split(sep)\<close> for a one-character separator: the pieces between the separators,
  empty pieces included; the empty string gives one empty piece.\<close>

fun split :: "'a \<Rightarrow> 'a list \<Rightarrow> 'a list list" where
  "split sep [] = [[]]"
| "split sep (c # cs) =
     (if c = sep then [] # split sep cs
      else (case split sep cs of p # ps \<Rightarrow> (c # p) # ps | [] \<Rightarrow> [[c]]))"

text \<open>\<open>s.split(sep, maxsplit=1)\<close>: one piece when the separator is absent, otherwise the
  text before the first separator and the text after it.\<close>

definition split_maxsplit_1 :: "'a \<Rightarrow> 'a list \<Rightarrow> 'a list list" where
  "split_maxsplit_1 sep s =
     (if sep \<in> set s
      then [takeWhile (\<lambda>c. c \<noteq> sep) s, drop 1 (dropWhile (\<lambda>c. c \<noteq> sep) s)]
      else [s])"

text \<open>\<open>xs[i]\<close> for a non-negative index raises \<open>IndexError\<close> out of range.\<close>

definition getitem :: "'a list \<Rightarrow> nat \<Rightarrow> error + 'a" where
  "getitem xs i = (if i < length xs then Inr (xs ! i) else Inl IndexError)"

text \<open>
  \<open>int(s, base)\<close> for base 10 and base 16, after CPython's \<open>PyLong_FromString\<close>:
  surrounding whitespace is skipped, one sign is allowed, base 16 allows a \<open>0x\<close> or
  \<open>0X\<close> prefix, single underscores may separate digits (one may follow the prefix),
  and at least one digit is required. Whitespace is the six ASCII space characters and
  the Unicode spaces beyond ASCII. Decimal digits beyond ASCII (which CPython converts
  to ASCII digits) are not modelled: a string holding one is rejected here. CPython's
  limit on the number of decimal digits (4300 by default since 3.11) is not modelled
  either. Every rejection is a \<open>ValueError\<close>.
\<close>

definition isspace :: "nat \<Rightarrow> bool" where
  "isspace c \<longleftrightarrow>
     (9 \<le> c \<and> c \<le> 13) \<or> c = 32 \<or> c = 0x85 \<or> c = 0xA0 \<or> c = 0x1680 \<or>
     (0x2000 \<le> c \<and> c \<le> 0x200A) \<or> c = 0x2028 \<or> c = 0x2029 \<or> c = 0x202F \<or>
     c = 0x205F \<or> c = 0x3000"

definition digit_value :: "nat \<Rightarrow> nat option" where
  "digit_value c =
     (if ord CHR ''0'' \<le> c \<and> c \<le> ord CHR ''9'' then Some (c - ord CHR ''0'')
      else if ord CHR ''a'' \<le> c \<and> c \<le> ord CHR ''z'' then Some (c - ord CHR ''a'' + 10)
      else if ord CHR ''A'' \<le> c \<and> c \<le> ord CHR ''Z'' then Some (c - ord CHR ''A'' + 10)
      else None)"

definition is_digit :: "nat \<Rightarrow> nat \<Rightarrow> bool" where
  "is_digit base c = (case digit_value c of Some d \<Rightarrow> d < base | None \<Rightarrow> False)"

fun double_underscore :: "str \<Rightarrow> bool" where
  "double_underscore (a # b # cs) =
     ((a = ord CHR ''_'' \<and> b = ord CHR ''_'') \<or> double_underscore (b # cs))"
| "double_underscore cs = False"

fun from_digits :: "nat \<Rightarrow> nat \<Rightarrow> str \<Rightarrow> nat" where
  "from_digits base acc [] = acc"
| "from_digits base acc (c # cs) =
     (case digit_value c of
        Some d \<Rightarrow> from_digits base (acc * base + d) cs
      | None \<Rightarrow> from_digits base acc cs)"

definition strip_sign :: "str \<Rightarrow> bool \<times> str" where
  "strip_sign s =
     (case s of
        [] \<Rightarrow> (False, s)
      | c # r \<Rightarrow>
          if c = ord CHR ''+'' then (False, r)
          else if c = ord CHR ''-'' then (True, r)
          else (False, s))"

definition strip_base_prefix :: "nat \<Rightarrow> str \<Rightarrow> str" where
  "strip_base_prefix base s =
     (if base = 16 \<and> (take 2 s = ascii ''0x'' \<or> take 2 s = ascii ''0X'')
      then (if take 1 (drop 2 s) = ascii ''_'' then drop 3 s else drop 2 s)
      else s)"

definition py_int :: "nat \<Rightarrow> str \<Rightarrow> error + int" where
  "py_int base s =
     (case strip_sign (dropWhile isspace s) of
        (negative, unsigned) \<Rightarrow>
          let body = strip_base_prefix base unsigned;
              digits = takeWhile (\<lambda>c. is_digit base c \<or> c = ord CHR ''_'') body;
              trailing = dropWhile (\<lambda>c. is_digit base c \<or> c = ord CHR ''_'') body
          in if digits = [] \<or> hd digits = ord CHR ''_'' \<or> last digits = ord CHR ''_''
                \<or> double_underscore digits \<or> \<not> list_all isspace trailing
             then Inl (ValueError (invalid_literal_for_int base s))
             else Inr ((if negative then - 1 else 1) * int (from_digits base 0 digits)))"

text \<open>
  \<open>b.decode()\<close>: strict UTF-8. Overlong forms, surrogates, code points beyond
  \<open>U+10FFFF\<close>, stray continuation bytes and truncated sequences raise
  \<open>UnicodeDecodeError\<close> (here \<open>None\<close>).
\<close>

definition continuation :: "char \<Rightarrow> bool" where
  "continuation c \<longleftrightarrow> 0x80 \<le> ord c \<and> ord c \<le> 0xBF"

fun utf_8 :: "bytes \<Rightarrow> str option" where
  "utf_8 [] = Some []"
| "utf_8 (b # bs) =
     (if ord b < 0x80 then map_option (Cons (ord b)) (utf_8 bs)
      else if 0xC2 \<le> ord b \<and> ord b \<le> 0xDF then
        (case bs of
           c1 # r \<Rightarrow>
             if continuation c1
             then map_option (Cons ((ord b - 0xC0) * 64 + (ord c1 - 0x80))) (utf_8 r)
             else None
         | _ \<Rightarrow> None)
      else if 0xE0 \<le> ord b \<and> ord b \<le> 0xEF then
        (case bs of
           c1 # c2 # r \<Rightarrow>
             if continuation c1 \<and> continuation c2
                \<and> (ord b = 0xE0 \<longrightarrow> 0xA0 \<le> ord c1)
                \<and> (ord b = 0xED \<longrightarrow> ord c1 \<le> 0x9F)
             then map_option
                    (Cons ((ord b - 0xE0) * 4096 + (ord c1 - 0x80) * 64 + (ord c2 - 0x80)))
                    (utf_8 r)
             else None
         | _ \<Rightarrow> None)
      else if 0xF0 \<le> ord b \<and> ord b \<le> 0xF4 then
        (case bs of
           c1 # c2 # c3 # r \<Rightarrow>
             if continuation c1 \<and> continuation c2 \<and> continuation c3
                \<and> (ord b = 0xF0 \<longrightarrow> 0x90 \<le> ord c1)
                \<and> (ord b = 0xF4 \<longrightarrow> ord c1 \<le> 0x8F)
             then map_option
                    (Cons ((ord b - 0xF0) * 262144 + (ord c1 - 0x80) * 4096
                           + (ord c2 - 0x80) * 64 + (ord c3 - 0x80)))
                    (utf_8 r)
             else None
         | _ \<Rightarrow> None)
      else None)"

definition decode :: "bytes \<Rightarrow> error + str" where
  "decode b = (case utf_8 b of None \<Rightarrow> Inl UnicodeDecodeError | Some s \<Rightarrow> Inr s)"

text \<open>
  \<open>b.decode(encoding="utf_16")\<close>: a leading byte order mark \<open>FF FE\<close> or \<open>FE FF\<close>
  selects the byte order and is dropped; without one the order is that of the machine,
  taken to be little-endian. A trailing odd byte, a low surrogate without a high one and
  a high surrogate without a low one raise \<open>UnicodeDecodeError\<close> (here \<open>None\<close>).
\<close>

fun utf_16_units :: "bool \<Rightarrow> bytes \<Rightarrow> nat list option" where
  "utf_16_units big_endian [] = Some []"
| "utf_16_units big_endian [a] = None"
| "utf_16_units big_endian (a # b # r) =
     map_option (Cons (if big_endian then ord a * 256 + ord b else ord a + ord b * 256))
       (utf_16_units big_endian r)"

fun utf_16_code_points :: "nat list \<Rightarrow> str option" where
  "utf_16_code_points [] = Some []"
| "utf_16_code_points (u # us) =
     (if u < 0xD800 \<or> 0xDFFF < u then map_option (Cons u) (utf_16_code_points us)
      else if u \<le> 0xDBFF then
        (case us of
           l # r \<Rightarrow>
             if 0xDC00 \<le> l \<and> l \<le> 0xDFFF
             then map_option (Cons (0x10000 + (u - 0xD800) * 1024 + (l - 0xDC00)))
                    (utf_16_code_points r)
             else None
         | [] \<Rightarrow> None)
      else None)"

definition utf_16 :: "bytes \<Rightarrow> str option" where
  "utf_16 b =
     (if take 2 b = [CHR 0xFF, CHR 0xFE]
        then Option.bind (utf_16_units False (drop 2 b)) utf_16_code_points
      else if take 2 b = [CHR 0xFE, CHR 0xFF]
        then Option.bind (utf_16_units True (drop 2 b)) utf_16_code_points
      else Option.bind (utf_16_units False b) utf_16_code_points)"

definition decode_utf_16 :: "bytes \<Rightarrow> error + str" where
  "decode_utf_16 b = (case utf_16 b of None \<Rightarrow> Inl UnicodeDecodeError | Some s \<Rightarrow> Inr s)"

section \<open>Primitive readers\<close>

text \<open>
  A binary file opened for reading is modelled by the bytes not yet read. \<open>file.read(n)\<close>
  returns the next \<open>n\<close> bytes, or fewer at the end of the file, and never raises. A
  reader takes the file and returns either the exception raised or its result with the
  rest of the file.
\<close>

type_synonym BinaryIO = bytes
type_synonym 'a io = "BinaryIO \<Rightarrow> error + ('a \<times> BinaryIO)"

definition io_return :: "'a \<Rightarrow> 'a io" where
  "io_return v file = Inr (v, file)"

definition io_raise :: "error \<Rightarrow> 'a io" where
  "io_raise e file = Inl e"

definition io_lift :: "error + 'a \<Rightarrow> 'a io" where
  "io_lift r file = (case r of Inl e \<Rightarrow> Inl e | Inr v \<Rightarrow> Inr (v, file))"

definition io_bind :: "'a io \<Rightarrow> ('a \<Rightarrow> 'b io) \<Rightarrow> 'b io" where
  "io_bind m f file = (case m file of Inl e \<Rightarrow> Inl e | Inr (v, file') \<Rightarrow> f v file')"

definition file_read :: "nat \<Rightarrow> bytes io" where
  "file_read n file = Inr (take n file, drop n file)"

text \<open>\<open>struct.unpack("<H", b)[0]\<close> and \<open>struct.unpack("<I", b)[0]\<close>: the buffer must
  have exactly the size of the format; the value is little-endian.\<close>

fun little_endian :: "bytes \<Rightarrow> int" where
  "little_endian [] = 0"
| "little_endian (b # bs) = of_char b + 256 * little_endian bs"

definition struct_unpack :: "nat \<Rightarrow> bytes \<Rightarrow> error + int" where
  "struct_unpack n b = (if length b = n then Inr (little_endian b) else Inl struct_error)"

definition read_uint16 :: "int io" where
  "read_uint16 = io_bind (file_read 2) (\<lambda>b. io_lift (struct_unpack 2 b))"

definition read_uint32 :: "int io" where
  "read_uint32 = io_bind (file_read 4) (\<lambda>b. io_lift (struct_unpack 4 b))"

text \<open>
  The loop of \<open>read_null_terminated_string\<close>: \<open>file.read(1)\<close> until it returns nothing
  (end of file) or a zero byte; every other byte is appended to \<open>chars\<close>.
\<close>

fun read_chars :: "bytes list \<Rightarrow> BinaryIO \<Rightarrow> bytes list \<times> BinaryIO" where
  "read_chars chars [] = (chars, [])"
| "read_chars chars (c # file) =
     (if [c] = [NUL] then (chars, file) else read_chars (chars @ [[c]]) file)"

definition read_null_terminated_string :: "str io" where
  "read_null_terminated_string file =
     (case read_chars [] file of (chars, file') \<Rightarrow> io_lift (decode (concat chars)) file')"

text \<open>
  The loop of \<open>read_null_terminated_utf16_string\<close>: \<open>file.read(2)\<close> returns no byte at
  the end of the file (the loop ends), one byte when only one is left (it is appended,
  and the next read ends the loop), or two bytes (the loop ends when both are zero).
\<close>

fun read_chars_utf16 :: "bytes list \<Rightarrow> BinaryIO \<Rightarrow> bytes list \<times> BinaryIO" where
  "read_chars_utf16 chars [] = (chars, [])"
| "read_chars_utf16 chars [a] = (chars @ [[a]], [])"
| "read_chars_utf16 chars (a # b # file) =
     (if [a, b] = [NUL, NUL] then (chars, file) else read_chars_utf16 (chars @ [[a, b]]) file)"

definition read_null_terminated_utf16_string :: "str io" where
  "read_null_terminated_utf16_string file =
     (case read_chars_utf16 [] file of
        (chars, file') \<Rightarrow> io_lift (decode_utf_16 (concat chars)) file')"

section \<open>Records\<close>

record ReplayTimestamp =
  year :: int
  month :: int
  day_of_week :: int
  day :: int
  hour :: int
  minute :: int
  second :: int
  millisecond :: int

definition ReplayTimestamp_parse :: "ReplayTimestamp io" where
  "ReplayTimestamp_parse =
     io_bind read_uint16 (\<lambda>a1.
     io_bind read_uint16 (\<lambda>a2.
     io_bind read_uint16 (\<lambda>a3.
     io_bind read_uint16 (\<lambda>a4.
     io_bind read_uint16 (\<lambda>a5.
     io_bind read_uint16 (\<lambda>a6.
     io_bind read_uint16 (\<lambda>a7.
     io_bind read_uint16 (\<lambda>a8.
     io_return \<lparr>year = a1, month = a2, day_of_week = a3, day = a4, hour = a5,
                minute = a6, second = a7, millisecond = a8\<rparr>))))))))"

record ReplaySlot =
  slot_type :: ReplaySlotType
  human_name :: str
  user_id :: int
  computer_difficulty :: "ReplaySlotDifficulty option"
  color :: int
  faction :: int
  star_position :: int
  team :: int

text \<open>The constructor \<open>ReplaySlot(slot_type)\<close> with the defaults of the dataclass.\<close>

definition ReplaySlot_init :: "ReplaySlotType \<Rightarrow> ReplaySlot" where
  "ReplaySlot_init t =
     \<lparr>slot_type = t, human_name = [], user_id = 0, computer_difficulty = None,
      color = 0, faction = 0, star_position = 0, team = 0\<rparr>"

section \<open>The slot grammar\<close>

definition ReplaySlot_read_slot_type :: "str \<Rightarrow> error + ReplaySlotType" where
  "ReplaySlot_read_slot_type raw =
     and_then (getitem raw 0) (\<lambda>c.
       if c = ord CHR ''H'' then Inr HUMAN
       else if c = ord CHR ''C'' then Inr COMPUTER
       else if c = ord CHR ''C'' then Inr COMPUTER
       else if c = ord CHR ''X'' \<or> c = ord CHR ''O'' then Inr EMPTY
       else and_then (getitem raw 0) (\<lambda>c0.
              Inl (ReplayParserException (invalid_replay_slot_type c0))))"

definition ReplaySlot_read_slot_difficulty :: "str \<Rightarrow> error + ReplaySlotDifficulty" where
  "ReplaySlot_read_slot_difficulty raw =
     and_then (getitem raw 1) (\<lambda>c.
       if c = ord CHR ''E'' then Inr EASY
       else if c = ord CHR ''M'' then Inr EASY
       else if c = ord CHR ''H'' then Inr EASY
       else and_then (getitem raw 0) (\<lambda>c0.
              Inl (ReplayParserException (invalid_replay_slot_difficulty c0))))"

text \<open>\<open>int(slot_details[i], base)\<close>: the index is evaluated first, then the conversion.\<close>

definition int_at :: "str list \<Rightarrow> nat \<Rightarrow> nat \<Rightarrow> error + int" where
  "int_at slot_details i base = and_then (getitem slot_details i) (py_int base)"

definition ReplaySlot_parse :: "str \<Rightarrow> error + ReplaySlot" where
  "ReplaySlot_parse raw =
     and_then (ReplaySlot_read_slot_type raw) (\<lambda>t.
       let slot = ReplaySlot_init t;
           slot_details = filter (\<lambda>p. p \<noteq> []) (split (ord CHR '','') raw)
       in if t = HUMAN then
            and_then (getitem slot_details 0) (\<lambda>d0.
            and_then (int_at slot_details 1 16) (\<lambda>v1.
            and_then (int_at slot_details 4 10) (\<lambda>v4.
            and_then (int_at slot_details 5 10) (\<lambda>v5.
            and_then (int_at slot_details 6 10) (\<lambda>v6.
            and_then (int_at slot_details 7 10) (\<lambda>v7.
            Inr (slot\<lparr>human_name := drop 1 d0, user_id := v1, color := v4,
                      faction := v5, star_position := v6, team := v7\<rparr>)))))))
          else if t = COMPUTER then
            and_then (ReplaySlot_read_slot_difficulty raw) (\<lambda>d.
            and_then (int_at slot_details 1 10) (\<lambda>v1.
            and_then (int_at slot_details 2 10) (\<lambda>v2.
            and_then (int_at slot_details 3 10) (\<lambda>v3.
            and_then (int_at slot_details 4 10) (\<lambda>v4.
            Inr (slot\<lparr>computer_difficulty := Some d, color := v1, faction := v2,
                      star_position := v3, team := v4\<rparr>))))))
          else Inr slot)"

section \<open>The metadata grammar\<close>

text \<open>
  The field \<open>O\<close> of the dataclass is declared \<open>int\<close> with default 0, and the parser
  stores the value of the key as a string in it: it holds an integer or a string. It is
  named \<open>O'\<close> here.
\<close>

record ReplayMetadata =
  mapfile_unknown_int :: int
  mapfile :: str
  map_crc :: int
  map_size :: int
  SD :: int
  C :: int
  SR :: int
  starting_credits :: int
  O' :: "int + str"
  slots :: "ReplaySlot list"

definition ReplayMetadata_init :: ReplayMetadata where
  "ReplayMetadata_init =
     \<lparr>mapfile_unknown_int = 0, mapfile = [], map_crc = 0, map_size = 0, SD = 0, C = 0,
      SR = 0, starting_credits = 0, O' = Inl 0, slots = []\<rparr>"

text \<open>The loop over \<open>value.split(":")\<close> under the key \<open>S\<close>: empty pieces are skipped,
  every other piece is parsed as a slot and appended.\<close>

fun ReplayMetadata_parse_slots :: "ReplayMetadata \<Rightarrow> str list \<Rightarrow> error + ReplayMetadata" where
  "ReplayMetadata_parse_slots metadata [] = Inr metadata"
| "ReplayMetadata_parse_slots metadata (slot_raw # rest) =
     (if slot_raw = [] then ReplayMetadata_parse_slots metadata rest
      else (case ReplaySlot_parse slot_raw of
              Inl e \<Rightarrow> Inl e
            | Inr slot \<Rightarrow>
                ReplayMetadata_parse_slots (metadata\<lparr>slots := slots metadata @ [slot]\<rparr>) rest))"

text \<open>The loop under the key \<open>M\<close> that counts the leading characters between
  \<open>"0"\<close> and \<open>"9"\<close>.\<close>

fun int_end_loop :: "nat \<Rightarrow> str \<Rightarrow> nat" where
  "int_end_loop int_end [] = int_end"
| "int_end_loop int_end (c # cs) =
     (if \<not> (ord CHR ''9'' \<ge> c \<and> c \<ge> ord CHR ''0'') then int_end
      else int_end_loop (int_end + 1) cs)"

text \<open>The body of the loop over the entries: one \<open>key=value\<close> entry updates the
  metadata or raises.\<close>

definition ReplayMetadata_parse_entry :: "ReplayMetadata \<Rightarrow> str \<Rightarrow> error + ReplayMetadata" where
  "ReplayMetadata_parse_entry metadata entry =
     (case split_maxsplit_1 (ord CHR ''='') entry of
        [key, val] \<Rightarrow>
          if key = ascii ''US'' then Inr metadata
          else if key = ascii ''M'' then
            (let int_end = int_end_loop 0 val
             in and_then (py_int 10 (take int_end val)) (\<lambda>v.
                  Inr (metadata\<lparr>mapfile_unknown_int := v, mapfile := drop int_end val\<rparr>)))
          else if key = ascii ''MC'' then
            and_then (py_int 16 val) (\<lambda>v. Inr (metadata\<lparr>map_crc := v\<rparr>))
          else if key = ascii ''MS'' then
            and_then (py_int 10 val) (\<lambda>v. Inr (metadata\<lparr>map_size := v\<rparr>))
          else if key = ascii ''SD'' then
            and_then (py_int 10 val) (\<lambda>v. Inr (metadata\<lparr>SD := v\<rparr>))
          else if key = ascii ''C'' then
            and_then (py_int 10 val) (\<lambda>v. Inr (metadata\<lparr>C := v\<rparr>))
          else if key = ascii ''SR'' then
            and_then (py_int 10 val) (\<lambda>v. Inr (metadata\<lparr>SR := v\<rparr>))
          else if key = ascii ''SC'' then
            and_then (py_int 10 val) (\<lambda>v. Inr (metadata\<lparr>starting_credits := v\<rparr>))
          else if key = ascii ''O'' then Inr (metadata\<lparr>O' := Inr val\<rparr>)
          else if key = ascii ''S'' then
            ReplayMetadata_parse_slots metadata (split (ord CHR '':'') val)
          else Inl (ReplayParserException (Unexpected_replay_metadata_key key))
      | _ \<Rightarrow> Inl (ValueError not_enough_values_to_unpack))"

fun ReplayMetadata_parse_entries :: "ReplayMetadata \<Rightarrow> str list \<Rightarrow> error + ReplayMetadata" where
  "ReplayMetadata_parse_entries metadata [] = Inr metadata"
| "ReplayMetadata_parse_entries metadata (entry # raw_split) =
     (case ReplayMetadata_parse_entry metadata entry of
        Inl e \<Rightarrow> Inl e
      | Inr metadata' \<Rightarrow> ReplayMetadata_parse_entries metadata' raw_split)"

text \<open>\<open>ReplayMetadata.parse\<close> after the string has been read from the file.\<close>

definition ReplayMetadata_parse_raw :: "str \<Rightarrow> error + ReplayMetadata" where
  "ReplayMetadata_parse_raw raw =
     ReplayMetadata_parse_entries ReplayMetadata_init
       (filter (\<lambda>p. p \<noteq> []) (split (ord CHR '';'') raw))"

definition ReplayMetadata_parse :: "ReplayMetadata io" where
  "ReplayMetadata_parse =
     io_bind read_null_terminated_string (\<lambda>raw. io_lift (ReplayMetadata_parse_raw raw))"

section \<open>The replay header\<close>

text \<open>
  \<open>datetime.datetime.fromtimestamp(t)\<close> is the local date and time of the instant
  \<open>t\<close> seconds after the epoch. The value is kept as that instant; its method
  \<open>timestamp()\<close> gives the seconds back. The rendering in the time zone of the process
  is not modelled.
\<close>

datatype datetime = fromtimestamp int


text \<open>A path is kept as the list of its components; \<open>path.name\<close> is the last one.\<close>

type_synonym Path = "str list"


record Replay =
  path :: Path
  game_type :: GameType
  start_date :: datetime
  end_date :: datetime
  num_timecodes :: int
  filename :: str
  timestamp :: ReplayTimestamp
  version :: str
  build_date :: str
  version_minor :: int
  version_major :: int
  unknown_hash :: bytes
  metadata :: ReplayMetadata
  unknown1 :: int
  unknown2 :: int
  unknown3 :: int
  unknown4 :: int
  game_speed :: int

definition Replay_parse_game_type :: "GameType io" where
  "Replay_parse_game_type =
     io_bind (file_read 6) (\<lambda>b. io_bind (io_lift (decode b)) (\<lambda>game_type.
       if game_type = ascii ''GENREP'' then io_return GENERALS
       else io_bind (file_read 6) (\<lambda>b. io_bind (io_lift (decode b)) (\<lambda>game_type.
         if game_type = ascii ''BFMEREPL'' then io_return BFME
         else if game_type = ascii ''BFME2RPL'' then io_return BFME2
         else io_raise (ReplayParserException (Unrecognized_replay_type game_type))))))"

definition Replay_parse_timestamp :: "datetime io" where
  "Replay_parse_timestamp = io_bind read_uint32 (\<lambda>t. io_return (fromtimestamp t))"

definition Replay_parse :: "Path \<Rightarrow> Replay io" where
  "Replay_parse p =
     io_bind Replay_parse_game_type (\<lambda>game_type'.
     if game_type' \<noteq> GENERALS
     then io_raise (ReplayParserException (not_implemented_yet game_type'))
     else
     io_bind Replay_parse_timestamp (\<lambda>start_date'.
     io_bind Replay_parse_timestamp (\<lambda>end_date'.
     io_bind read_uint16 (\<lambda>num_timecodes'.
     io_bind (file_read 12) (\<lambda>zero.
     io_bind read_null_terminated_utf16_string (\<lambda>filename'.
     io_bind ReplayTimestamp_parse (\<lambda>timestamp'.
     io_bind read_null_terminated_utf16_string (\<lambda>version'.
     io_bind read_null_terminated_utf16_string (\<lambda>build_date'.
     io_bind read_uint16 (\<lambda>version_minor'.
     io_bind read_uint16 (\<lambda>version_major'.
     io_bind (file_read 8) (\<lambda>unknown_hash'.
     io_bind ReplayMetadata_parse (\<lambda>metadata'.
     io_bind read_uint16 (\<lambda>unknown1'.
     io_bind read_uint32 (\<lambda>unknown2'.
     io_bind read_uint32 (\<lambda>unknown3'.
     io_bind read_uint32 (\<lambda>unknown4'.
     io_bind read_uint32 (\<lambda>game_speed'.
     io_return
       \<lparr>path = p, game_type = game_type', start_date = start_date',
        end_date = end_date', num_timecodes = num_timecodes', filename = filename',
        timestamp = timestamp', version = version', build_date = build_date',
        version_minor = version_minor', version_major = version_major',
        unknown_hash = unknown_hash', metadata = metadata', unknown1 = unknown1',
        unknown2 = unknown2', unknown3 = unknown3', unknown4 = unknown4',
        game_speed = game_speed'\<rparr>))))))))))))))))))"

text \<open>
  The constructor \<open>Replay(path)\<close> opens the file for reading, parses it from its first
  byte and closes it. The files of the machine are a map from paths to contents; opening
  a file that does not exist raises \<open>FileNotFoundError\<close>. The constructor returns the
  files as they were: nothing is written.
\<close>

type_synonym files = "Path \<rightharpoonup> bytes"

definition Replay_init :: "Path \<Rightarrow> files \<Rightarrow> (error + Replay) \<times> files" where
  "Replay_init p fs =
     (case fs p of
        None \<Rightarrow> (Inl FileNotFoundError, fs)
      | Some content \<Rightarrow>
          (case Replay_parse p content of
             Inl e \<Rightarrow> (Inl e, fs)
           | Inr (replay, file) \<Rightarrow> (Inr replay, fs)))"

section \<open>The database\<close>










section \<open>The decoder over a store of list objects\<close>

text \<open>
  What a Python process keeps from one call of the decoder to the next is the store of
  its objects. Among the objects of the decoder, the one that is shared by reference and
  changed in place is the list behind the attribute \<open>slots\<close> of \<open>ReplayMetadata\<close>: the
  dataclass declares it with \<open>dataclasses.field(default_factory=list)\<close>, so the
  constructor \<open>ReplayMetadata()\<close> calls \<open>list()\<close>, and the parser changes it with
  \<open>metadata.slots.append(...)\<close>. This section models the decoder once more, with these
  list objects in an explicit store, so that a list kept from an earlier call, or shared
  between two records, is something the model can express.

  The store is the sequence of the list objects created so far, and the address of an
  object is its position. \<open>list()\<close> adds an empty list at a new address; \<open>append\<close>
  changes the list at an address in place. A \<open>ReplayMetadata\<close> object is the pair of
  its other attributes, held by value, and the address of its list (the field \<open>slots\<close>
  of the first component is not used). A computation takes the store and returns the
  result or the exception together with the store it leaves: what an exception leaves
  behind stays in the store. The readers of the file do not touch the store. The order
  is that of the source: \<open>ReplayMetadata.parse\<close> constructs the object before it reads
  the string. \<open>Replay_parse_store\<close> returns the record with the address of the list of
  its metadata, and \<open>replay_value\<close> reads such a record in a store.
\<close>

type_synonym store = "ReplaySlot list list"

definition list_new :: "store \<Rightarrow> nat \<times> store" where
  "list_new h = (length h, h @ [[]])"

definition list_append :: "nat \<Rightarrow> ReplaySlot \<Rightarrow> store \<Rightarrow> store" where
  "list_append a slot h = h[a := h ! a @ [slot]]"

type_synonym ReplayMetadata_object = "ReplayMetadata \<times> nat"

definition ReplayMetadata_new :: "store \<Rightarrow> ReplayMetadata_object \<times> store" where
  "ReplayMetadata_new h = (case list_new h of (a, h') \<Rightarrow> ((ReplayMetadata_init, a), h'))"

fun parse_slots_store :: "nat \<Rightarrow> str list \<Rightarrow> store \<Rightarrow> error option \<times> store" where
  "parse_slots_store a [] h = (None, h)"
| "parse_slots_store a (slot_raw # rest) h =
     (if slot_raw = [] then parse_slots_store a rest h
      else (case ReplaySlot_parse slot_raw of
              Inl e \<Rightarrow> (Some e, h)
            | Inr slot \<Rightarrow> parse_slots_store a rest (list_append a slot h)))"

definition parse_entry_store ::
  "ReplayMetadata_object \<Rightarrow> str \<Rightarrow> store \<Rightarrow> (error + ReplayMetadata_object) \<times> store" where
  "parse_entry_store obj entry h =
     (case obj of (md, a) \<Rightarrow>
      (case split_maxsplit_1 (ord CHR ''='') entry of
        [key, val] \<Rightarrow>
          if key = ascii ''US'' then (Inr obj, h)
          else if key = ascii ''M'' then
            (let int_end = int_end_loop 0 val
             in (and_then (py_int 10 (take int_end val)) (\<lambda>v.
                  Inr (md\<lparr>mapfile_unknown_int := v, mapfile := drop int_end val\<rparr>, a)), h))
          else if key = ascii ''MC'' then
            (and_then (py_int 16 val) (\<lambda>v. Inr (md\<lparr>map_crc := v\<rparr>, a)), h)
          else if key = ascii ''MS'' then
            (and_then (py_int 10 val) (\<lambda>v. Inr (md\<lparr>map_size := v\<rparr>, a)), h)
          else if key = ascii ''SD'' then
            (and_then (py_int 10 val) (\<lambda>v. Inr (md\<lparr>SD := v\<rparr>, a)), h)
          else if key = ascii ''C'' then
            (and_then (py_int 10 val) (\<lambda>v. Inr (md\<lparr>C := v\<rparr>, a)), h)
          else if key = ascii ''SR'' then
            (and_then (py_int 10 val) (\<lambda>v. Inr (md\<lparr>SR := v\<rparr>, a)), h)
          else if key = ascii ''SC'' then
            (and_then (py_int 10 val) (\<lambda>v. Inr (md\<lparr>starting_credits := v\<rparr>, a)), h)
          else if key = ascii ''O'' then (Inr (md\<lparr>O' := Inr val\<rparr>, a), h)
          else if key = ascii ''S'' then
            (case parse_slots_store a (split (ord CHR '':'') val) h of
               (None, h') \<Rightarrow> (Inr obj, h')
             | (Some e, h') \<Rightarrow> (Inl e, h'))
          else (Inl (ReplayParserException (Unexpected_replay_metadata_key key)), h)
      | _ \<Rightarrow> (Inl (ValueError not_enough_values_to_unpack), h)))"

fun parse_entries_store ::
  "ReplayMetadata_object \<Rightarrow> str list \<Rightarrow> store \<Rightarrow> (error + ReplayMetadata_object) \<times> store" where
  "parse_entries_store obj [] h = (Inr obj, h)"
| "parse_entries_store obj (entry # raw_split) h =
     (case parse_entry_store obj entry h of
        (Inl e, h') \<Rightarrow> (Inl e, h')
      | (Inr obj', h') \<Rightarrow> parse_entries_store obj' raw_split h')"

type_synonym 'a sio = "BinaryIO \<Rightarrow> store \<Rightarrow> (error + ('a \<times> BinaryIO)) \<times> store"

definition sio_return :: "'a \<Rightarrow> 'a sio" where
  "sio_return v file h = (Inr (v, file), h)"

definition sio_pure :: "'a io \<Rightarrow> 'a sio" where
  "sio_pure m file h = (m file, h)"

definition sio_bind :: "'a sio \<Rightarrow> ('a \<Rightarrow> 'b sio) \<Rightarrow> 'b sio" where
  "sio_bind m f file h =
     (case m file h of
        (Inl e, h') \<Rightarrow> (Inl e, h')
      | (Inr (v, file'), h') \<Rightarrow> f v file' h')"

definition ReplayMetadata_parse_store :: "ReplayMetadata_object sio" where
  "ReplayMetadata_parse_store file h =
     (case ReplayMetadata_new h of
        (obj, h1) \<Rightarrow>
          (case read_null_terminated_string file of
             Inl e \<Rightarrow> (Inl e, h1)
           | Inr (raw, file') \<Rightarrow>
               (case parse_entries_store obj
                       (filter (\<lambda>p. p \<noteq> []) (split (ord CHR '';'') raw)) h1 of
                  (Inl e, h2) \<Rightarrow> (Inl e, h2)
                | (Inr obj', h2) \<Rightarrow> (Inr (obj', file'), h2))))"

definition Replay_parse_store :: "Path \<Rightarrow> (Replay \<times> nat) sio" where
  "Replay_parse_store p =
     sio_bind (sio_pure Replay_parse_game_type) (\<lambda>game_type'.
     if game_type' \<noteq> GENERALS
     then sio_pure (io_raise (ReplayParserException (not_implemented_yet game_type')))
     else
     sio_bind (sio_pure Replay_parse_timestamp) (\<lambda>start_date'.
     sio_bind (sio_pure Replay_parse_timestamp) (\<lambda>end_date'.
     sio_bind (sio_pure read_uint16) (\<lambda>num_timecodes'.
     sio_bind (sio_pure (file_read 12)) (\<lambda>zero.
     sio_bind (sio_pure read_null_terminated_utf16_string) (\<lambda>filename'.
     sio_bind (sio_pure ReplayTimestamp_parse) (\<lambda>timestamp'.
     sio_bind (sio_pure read_null_terminated_utf16_string) (\<lambda>version'.
     sio_bind (sio_pure read_null_terminated_utf16_string) (\<lambda>build_date'.
     sio_bind (sio_pure read_uint16) (\<lambda>version_minor'.
     sio_bind (sio_pure read_uint16) (\<lambda>version_major'.
     sio_bind (sio_pure (file_read 8)) (\<lambda>unknown_hash'.
     sio_bind ReplayMetadata_parse_store (\<lambda>metadata_object.
     sio_bind (sio_pure read_uint16) (\<lambda>unknown1'.
     sio_bind (sio_pure read_uint32) (\<lambda>unknown2'.
     sio_bind (sio_pure read_uint32) (\<lambda>unknown3'.
     sio_bind (sio_pure read_uint32) (\<lambda>unknown4'.
     sio_bind (sio_pure read_uint32) (\<lambda>game_speed'.
     sio_return
       (\<lparr>path = p, game_type = game_type', start_date = start_date',
         end_date = end_date', num_timecodes = num_timecodes', filename = filename',
         timestamp = timestamp', version = version', build_date = build_date',
         version_minor = version_minor', version_major = version_major',
         unknown_hash = unknown_hash', metadata = fst metadata_object,
         unknown1 = unknown1', unknown2 = unknown2', unknown3 = unknown3',
         unknown4 = unknown4', game_speed = game_speed'\<rparr>,
        snd metadata_object)))))))))))))))))))"

definition Replay_init_store ::
  "Path \<Rightarrow> files \<times> store \<Rightarrow> (error + Replay \<times> nat) \<times> files \<times> store" where
  "Replay_init_store p w =
     (case w of (fs, h) \<Rightarrow>
        (case fs p of
           None \<Rightarrow> (Inl FileNotFoundError, fs, h)
         | Some content \<Rightarrow>
             (case Replay_parse_store p content h of
                (Inl e, h') \<Rightarrow> (Inl e, fs, h')
              | (Inr (replay, file), h') \<Rightarrow> (Inr replay, fs, h'))))"

definition replay_value :: "store \<Rightarrow> Replay \<times> nat \<Rightarrow> Replay" where
  "replay_value h r =
     (fst r)\<lparr>metadata := (metadata (fst r))\<lparr>slots := h ! snd r\<rparr>\<rparr>"

section \<open>Example inputs\<close>

text \<open>
  A smallest well-formed header around a given embedded filename and metadata text: the
  marker, zero for both dates and the count of timecodes, the reserved twelve bytes, the
  filename in UTF-16 with its terminator, a zero timestamp, empty version and build
  strings, zero version numbers, a zero hash, the metadata with its terminator, and a
  zero trailer.
\<close>

definition example_replay :: "bytes \<Rightarrow> bytes \<Rightarrow> bytes" where
  "example_replay name meta =
     ''GENREP''
     @ [NUL, NUL, NUL, NUL] @ [NUL, NUL, NUL, NUL]
     @ [NUL, NUL]
     @ [NUL, NUL, NUL, NUL, NUL, NUL, NUL, NUL, NUL, NUL, NUL, NUL]
     @ name @ [NUL, NUL]
     @ [NUL, NUL, NUL, NUL, NUL, NUL, NUL, NUL, NUL, NUL, NUL, NUL, NUL, NUL, NUL, NUL]
     @ [NUL, NUL] @ [NUL, NUL]
     @ [NUL, NUL] @ [NUL, NUL]
     @ [NUL, NUL, NUL, NUL, NUL, NUL, NUL, NUL]
     @ meta @ [NUL]
     @ [NUL, NUL] @ [NUL, NUL, NUL, NUL] @ [NUL, NUL, NUL, NUL] @ [NUL, NUL, NUL, NUL] @ [NUL, NUL, NUL, NUL]"

definition example_path :: Path where
  "example_path = [ascii ''a.rep'']"

text \<open>The record decoded from \<open>example_replay\<close> with the given filename and metadata.\<close>

definition example_record :: "str \<Rightarrow> ReplayMetadata \<Rightarrow> Replay" where
  "example_record name meta =
     \<lparr>path = example_path, game_type = GENERALS, start_date = fromtimestamp 0,
      end_date = fromtimestamp 0, num_timecodes = 0, filename = name,
      timestamp = \<lparr>year = 0, month = 0, day_of_week = 0, day = 0, hour = 0,
                    minute = 0, second = 0, millisecond = 0\<rparr>,
      version = [], build_date = [], version_minor = 0, version_major = 0,
      unknown_hash = [NUL, NUL, NUL, NUL, NUL, NUL, NUL, NUL],
      metadata = meta, unknown1 = 0, unknown2 = 0, unknown3 = 0, unknown4 = 0,
      game_speed = 0\<rparr>"



definition computer_slot :: ReplaySlot where
  "computer_slot =
     \<lparr>slot_type = COMPUTER, human_name = [], user_id = 0, computer_difficulty = Some EASY,
      color = 1, faction = 2, star_position = 3, team = 4\<rparr>"

section \<open>Notions used in the statements\<close>




text \<open>
  How a reader behaves on a truncated file. Whenever the reader succeeds on a file, it
  has consumed a prefix \<open>c\<close> of it and depends on nothing else: it returns the same
  value on \<open>c\<close> followed by any other rest (by nothing, when it had reached the end of
  the file). On a proper prefix of \<open>c\<close> it raises an exception or, when \<open>may_end\<close>
  holds, may also return a value with the file exhausted. \<open>fails_at_end\<close>: the reader
  raises an exception on the exhausted file.
\<close>

definition on_cut :: "bool \<Rightarrow> 'a io \<Rightarrow> bool" where
  "on_cut may_end P \<longleftrightarrow>
     (\<forall>s v s'. P s = Inr (v, s') \<longrightarrow>
        (\<exists>c. s = c @ s'
           \<and> (\<forall>t. (s' = [] \<longrightarrow> t = []) \<longrightarrow> P (c @ t) = Inr (v, t))
           \<and> (\<forall>n<length c. (\<exists>e. P (take n c) = Inl e)
                  \<or> (may_end \<and> (\<exists>v'. P (take n c) = Inr (v', []))))))"




section \<open>Properties of the slot grammar\<close>

lemmas int_defs =
  py_int_def strip_sign_def strip_base_prefix_def isspace_def is_digit_def digit_value_def

lemmas slot_defs =
  ReplaySlot_parse_def ReplaySlot_read_slot_type_def ReplaySlot_read_slot_difficulty_def
  ReplaySlot_init_def int_at_def getitem_def and_then_def

lemmas metadata_defs =
  ReplayMetadata_parse_raw_def ReplayMetadata_parse_entry_def split_maxsplit_1_def
  ReplayMetadata_init_def

text \<open>
  Claim C2. For a COMPUTER slot the character at offset 1 of the token should select the
  difficulty: \<open>E\<close> gives EASY, \<open>M\<close> MEDIUM and \<open>H\<close> HARD, and any other character
  should fail with that character. The code returns EASY for all three letters: whatever
  the first character and the rest of the token are, \<open>M\<close> and \<open>H\<close> at offset 1 give
  EASY, so the token \<open>CM,1,2,3,4\<close> is parsed as an EASY computer player. The message
  of the failure carries the character at offset 0, not the one at offset 1.
\<close>

theorem read_slot_difficulty_always_EASY:
  "ReplaySlot_read_slot_difficulty (c0 # ord CHR ''M'' # rest) = Inr EASY
   \<and> ReplaySlot_read_slot_difficulty (c0 # ord CHR ''H'' # rest) = Inr EASY
   \<and> ReplaySlot_parse (ascii ''CM,1,2,3,4'') =
       Inr \<lparr>slot_type = COMPUTER, human_name = [], user_id = 0,
            computer_difficulty = Some EASY, color = 1, faction = 2,
            star_position = 3, team = 4\<rparr>
   \<and> ReplaySlot_read_slot_difficulty (ascii ''C?'') =
       Inl (ReplayParserException (invalid_replay_slot_difficulty (ord CHR ''C'')))"
  by (simp add: slot_defs int_defs)

text \<open>
  Claim C4, as the specification states it, parses the token \<open>C,E,2,3,4,0\<close> as a
  COMPUTER slot. The character at offset 1 of that token is the comma, so the code
  raises the exception for an invalid difficulty.
\<close>

theorem parse_token_C_comma_E_fails:
  "ReplaySlot_parse (ascii ''C,E,2,3,4,0'') =
     Inl (ReplayParserException (invalid_replay_slot_difficulty (ord CHR ''C'')))"
  by (simp add: slot_defs int_defs)

text \<open>
  Claim C4, amended. The token \<open>CE,2,3,4,0\<close> (the difficulty letter directly after the
  \<open>C\<close>) is parsed as a COMPUTER slot with difficulty EASY, color 2, faction 3, start
  position 4 and team 0; the token \<open>X\<close> is parsed as an EMPTY slot whose other fields
  keep their defaults; every token whose first character is \<open>Q\<close> raises the exception
  for an invalid slot type.
\<close>

theorem parse_slot_examples:
  "ReplaySlot_parse (ascii ''CE,2,3,4,0'') =
     Inr \<lparr>slot_type = COMPUTER, human_name = [], user_id = 0,
          computer_difficulty = Some EASY, color = 2, faction = 3,
          star_position = 4, team = 0\<rparr>
   \<and> ReplaySlot_parse (ascii ''X'') = Inr (ReplaySlot_init EMPTY)
   \<and> ReplaySlot_parse (ord CHR ''Q'' # rest) =
       Inl (ReplayParserException (invalid_replay_slot_type (ord CHR ''Q'')))"
  by (simp add: slot_defs int_defs)

theorem parse_slot_examples_witness:
  "ReplaySlot_parse (ascii ''Q,1,2'') =
     Inl (ReplayParserException (invalid_replay_slot_type (ord CHR ''Q'')))"
  using parse_slot_examples [of "ascii '',1,2''"] by simp

text \<open>
  Claim C7, as the specification states it, says that a field without meaning for the
  variant of a slot is absent and never the value 0. In the code only the difficulty can
  be absent: the EMPTY slot parsed from \<open>X\<close> has the color 0, the same value as the
  color of the HUMAN slot parsed from a token whose color field is \<open>0\<close>.
\<close>

theorem empty_slot_fields_are_zero:
  "ReplaySlot_parse (ascii ''X'') =
     Inr \<lparr>slot_type = EMPTY, human_name = [], user_id = 0, computer_difficulty = None,
          color = 0, faction = 0, star_position = 0, team = 0\<rparr>
   \<and> map_sum id color (ReplaySlot_parse (ascii ''X'')) = Inr 0
   \<and> map_sum id color (ReplaySlot_parse (ascii ''Hab,1F,0,0,0,1,2,3'')) = Inr 0"
  by (simp add: slot_defs int_defs)

text \<open>
  Claim C7, amended. For every parsed slot, the fields without meaning for its variant
  hold the defaults of the dataclass: an EMPTY slot is the default slot (empty name,
  user id 0, no difficulty, color, faction, start position and team 0); a COMPUTER slot
  has the empty name and the user id 0, and it has a difficulty; a HUMAN slot has no
  difficulty. Only the difficulty is represented as absent.
\<close>

theorem parsed_slot_defaults:
  "ReplaySlot_parse raw = Inr slot \<Longrightarrow>
     (slot_type slot = EMPTY \<longrightarrow> slot = ReplaySlot_init EMPTY)
   \<and> (slot_type slot = COMPUTER \<longrightarrow>
         human_name slot = [] \<and> user_id slot = 0 \<and> computer_difficulty slot \<noteq> None)
   \<and> (slot_type slot = HUMAN \<longrightarrow> computer_difficulty slot = None)"
  unfolding ReplaySlot_parse_def and_then_def Let_def ReplaySlot_init_def
  by (auto split: sum.splits if_splits)

theorem parsed_slot_defaults_witness:
  "ReplaySlot_parse (ascii ''CE,2,3,4,0'') =
     Inr \<lparr>slot_type = COMPUTER, human_name = [], user_id = 0,
          computer_difficulty = Some EASY, color = 2, faction = 3,
          star_position = 4, team = 0\<rparr>
   \<and> human_name \<lparr>slot_type = COMPUTER, human_name = [], user_id = 0,
          computer_difficulty = Some EASY, color = 2, faction = 3,
          star_position = 4, team = 0\<rparr> = []"
proof -
  have h: "ReplaySlot_parse (ascii ''CE,2,3,4,0'') =
     Inr \<lparr>slot_type = COMPUTER, human_name = [], user_id = 0,
          computer_difficulty = Some EASY, color = 2, faction = 3,
          star_position = 4, team = 0\<rparr>"
    by (simp add: slot_defs int_defs)
  show ?thesis using h parsed_slot_defaults [OF h] by simp
qed

section \<open>Properties of the metadata grammar\<close>

text \<open>
  Claim C3, as the specification states it, expects from the metadata string
  \<open>US=1;MC=ff;MS=100;SC=5000;S=H0xAB,1,1,1,0,1,0,0:X:\<close> a HUMAN slot with user id
  \<open>0xAB\<close>, color 1 and team 1. The code takes the name from the first field after its
  first character, the user id from field 1 and color, faction, start position and team
  from fields 4 to 7: the user id is 1, the color 0 and the team 0.
\<close>

theorem metadata_example_human_slot_differs:
  "map_sum id (\<lambda>m. map user_id (slots m))
     (ReplayMetadata_parse_raw
        (ascii ''US=1;MC=ff;MS=100;SC=5000;S=H0xAB,1,1,1,0,1,0,0:X:'')) = Inr [1, 0]
   \<and> map_sum id (\<lambda>m. map color (slots m))
     (ReplayMetadata_parse_raw
        (ascii ''US=1;MC=ff;MS=100;SC=5000;S=H0xAB,1,1,1,0,1,0,0:X:'')) = Inr [0, 0]
   \<and> map_sum id (\<lambda>m. map team (slots m))
     (ReplayMetadata_parse_raw
        (ascii ''US=1;MC=ff;MS=100;SC=5000;S=H0xAB,1,1,1,0,1,0,0:X:'')) = Inr [0, 0]"
  by (simp add: metadata_defs slot_defs int_defs)

text \<open>
  Claim C3, amended. Decoding the metadata string
  \<open>US=1;MC=ff;MS=100;SC=5000;S=H0xAB,1,1,1,0,1,0,0:X:\<close> succeeds and yields map CRC
  255, map size 100, starting credits 5000 and exactly two slots in order: a HUMAN slot
  with the name \<open>0xAB\<close>, user id 1, color 0, faction 1, start position 0 and team 0,
  followed by an EMPTY slot.
\<close>

theorem metadata_example:
  "ReplayMetadata_parse_raw (ascii ''US=1;MC=ff;MS=100;SC=5000;S=H0xAB,1,1,1,0,1,0,0:X:'') =
     Inr \<lparr>mapfile_unknown_int = 0, mapfile = [], map_crc = 255, map_size = 100,
          SD = 0, C = 0, SR = 0, starting_credits = 5000, O' = Inl 0,
          slots =
            [\<lparr>slot_type = HUMAN, human_name = ascii ''0xAB'', user_id = 1,
              computer_difficulty = None, color = 0, faction = 1,
              star_position = 0, team = 0\<rparr>,
             \<lparr>slot_type = EMPTY, human_name = [], user_id = 0,
              computer_difficulty = None, color = 0, faction = 0,
              star_position = 0, team = 0\<rparr>]\<rparr>"
  by (simp add: metadata_defs slot_defs int_defs)

lemma int_end_loop_no_digit:
  "val = [] \<or> \<not> (ord CHR ''0'' \<le> hd val \<and> hd val \<le> ord CHR ''9'') \<Longrightarrow>
   int_end_loop 0 val = 0"
  by (cases val) auto

lemma py_int_empty: "py_int 10 [] = Inl (ValueError (invalid_literal_for_int 10 []))"
  by (simp add: int_defs)

text \<open>
  Claim C5, as the specification states it, gives the prefix 0 to a value of the key
  \<open>M\<close> without leading digits. The code converts the empty run of digits with
  \<open>int("")\<close>, which raises \<open>ValueError\<close>.
\<close>

theorem mapfile_without_digits_fails:
  "ReplayMetadata_parse_raw (ascii ''M=mymap.map'') =
     Inl (ValueError (invalid_literal_for_int 10 []))"
  by (simp add: metadata_defs slot_defs int_defs)

text \<open>
  Claim C5, amended. For the metadata key \<open>M\<close>, the value \<open>42mymap.map\<close> splits into
  the numeric prefix 42 and the path \<open>mymap.map\<close>; for every value of \<open>M\<close> with no
  leading decimal digit, parsing the entry raises the \<open>ValueError\<close> of \<open>int("")\<close>:
  no prefix 0 is put in its place.
\<close>

theorem mapfile_entry:
  "ReplayMetadata_parse_entry m (ascii ''M=42mymap.map'')
     = Inr (m\<lparr>mapfile_unknown_int := 42, mapfile := ascii ''mymap.map''\<rparr>)
   \<and> (val = [] \<or> \<not> (ord CHR ''0'' \<le> hd val \<and> hd val \<le> ord CHR ''9'')
        \<longrightarrow> ReplayMetadata_parse_entry m (ascii ''M='' @ val)
              = Inl (ValueError (invalid_literal_for_int 10 [])))"
proof (intro conjI impI)
  show "ReplayMetadata_parse_entry m (ascii ''M=42mymap.map'')
     = Inr (m\<lparr>mapfile_unknown_int := 42, mapfile := ascii ''mymap.map''\<rparr>)"
    by (simp add: ReplayMetadata_parse_entry_def split_maxsplit_1_def and_then_def int_defs)
next
  assume h: "val = [] \<or> \<not> (ord CHR ''0'' \<le> hd val \<and> hd val \<le> ord CHR ''9'')"
  have s: "split_maxsplit_1 (ord CHR ''='') (ascii ''M='' @ val) = [ascii ''M'', val]"
    by (simp add: split_maxsplit_1_def)
  show "ReplayMetadata_parse_entry m (ascii ''M='' @ val)
              = Inl (ValueError (invalid_literal_for_int 10 []))"
    unfolding ReplayMetadata_parse_entry_def s
    by (simp add: int_end_loop_no_digit[OF h] py_int_empty and_then_def)
qed

theorem mapfile_entry_witness:
  "ReplayMetadata_parse_entry ReplayMetadata_init (ascii ''M=mymap.map'')
     = Inl (ValueError (invalid_literal_for_int 10 []))"
  using mapfile_entry [of ReplayMetadata_init "ascii ''mymap.map''"] by simp

lemma parse_entries_append:
  "ReplayMetadata_parse_entries m (xs @ ys)
     = and_then (ReplayMetadata_parse_entries m xs) (\<lambda>m'. ReplayMetadata_parse_entries m' ys)"
  by (induction xs arbitrary: m) (auto simp: and_then_def split: sum.splits)

lemma parse_entry_no_equals:
  "ord CHR ''='' \<notin> set seg \<Longrightarrow>
   ReplayMetadata_parse_entry m seg = Inl (ValueError not_enough_values_to_unpack)"
  by (simp add: ReplayMetadata_parse_entry_def split_maxsplit_1_def)

text \<open>
  Claim C9, as stated, lets every metadata block with a non-empty segment without \<open>=\<close>
  raise the \<open>ValueError\<close> of the unpacking. The entries are processed in order and the
  first exception wins: in \<open>ZZ=1;abc\<close> the unknown key of the first segment raises the
  parser's own exception before the second segment is reached.
\<close>

theorem earlier_segment_fails_first:
  "ReplayMetadata_parse_raw (ascii ''ZZ=1;abc'') =
     Inl (ReplayParserException (Unexpected_replay_metadata_key (ascii ''ZZ'')))"
  by (simp add: metadata_defs slot_defs int_defs)

text \<open>
  Claim C9, amended. For every metadata block that contains a non-empty segment without
  \<open>=\<close>, parsing never succeeds; when the segments before such a segment are all
  processed without an exception, parsing raises the untyped \<open>ValueError\<close> of unpacking
  the one-element split into key and value, not an exception of the parser.
\<close>

theorem segment_without_equals:
  assumes "filter (\<lambda>p. p \<noteq> []) (split (ord CHR '';'') raw) = pre @ seg # post"
      and "ord CHR ''='' \<notin> set seg"
  shows "(\<exists>e. ReplayMetadata_parse_raw raw = Inl e)
       \<and> (\<forall>m. ReplayMetadata_parse_entries ReplayMetadata_init pre = Inr m \<longrightarrow>
              ReplayMetadata_parse_raw raw = Inl (ValueError not_enough_values_to_unpack))"
  unfolding ReplayMetadata_parse_raw_def assms(1) parse_entries_append
  by (auto simp: and_then_def parse_entry_no_equals[OF assms(2)] split: sum.splits)

theorem segment_without_equals_witness:
  "ReplayMetadata_parse_entries ReplayMetadata_init [ascii ''US=1''] = Inr ReplayMetadata_init
   \<and> ReplayMetadata_parse_raw (ascii ''US=1;abc'') = Inl (ValueError not_enough_values_to_unpack)"
proof -
  have a: "filter (\<lambda>p. p \<noteq> []) (split (ord CHR '';'') (ascii ''US=1;abc''))
             = [ascii ''US=1''] @ ascii ''abc'' # []"
    by simp
  have b: "ord CHR ''='' \<notin> set (ascii ''abc'')"
    by simp
  have c: "ReplayMetadata_parse_entries ReplayMetadata_init [ascii ''US=1''] = Inr ReplayMetadata_init"
    by (simp add: metadata_defs)
  show ?thesis using c segment_without_equals [OF a b] by blast
qed

section \<open>Properties of the replay header\<close>

lemmas io_defs = io_bind_def io_return_def io_raise_def io_lift_def file_read_def

lemmas read_defs =
  read_uint16_def read_uint32_def struct_unpack_def read_null_terminated_string_def
  read_null_terminated_utf16_string_def decode_def decode_utf_16_def utf_16_def

lemma utf_8_length: "utf_8 b = Some s \<Longrightarrow> length s \<le> length b"
proof (induction b arbitrary: s rule: utf_8.induct)
  case 1
  then show ?case by simp
next
  case (2 b bs)
  then show ?case
    by (fastforce split: if_splits list.splits)
qed

lemma decode_length: "decode b = Inr s \<Longrightarrow> length s \<le> length b"
  by (auto simp: decode_def utf_8_length split: option.splits)

lemma decode_error: "decode b = Inl e \<Longrightarrow> e = UnicodeDecodeError"
  by (auto simp: decode_def split: option.splits)

text \<open>The second read of \<open>_parse_game_type\<close> takes at most six bytes, which decode to at
  most six characters: the result is never one of the two markers of eight characters.\<close>

lemma second_tag_never_matches:
  assumes "decode (take 6 b) = Inr s"
  shows "s \<noteq> ascii ''BFMEREPL'' \<and> s \<noteq> ascii ''BFME2RPL''"
proof -
  have "length s \<le> 6" using decode_length [OF assms] by simp
  then show ?thesis by auto
qed

lemma game_type_not_GENREP:
  assumes "take 6 bs = t" and "decode t = Inr s" and "s \<noteq> ascii ''GENREP''"
  shows "\<exists>e. Replay_parse_game_type bs = Inl e
             \<and> e \<noteq> ReplayParserException (not_implemented_yet g)"
  using assms second_tag_never_matches [of "drop 6 bs"]
  by (auto simp: Replay_parse_game_type_def io_defs split: sum.splits dest: decode_error)

lemma Replay_parse_game_type_fails:
  assumes "Replay_parse_game_type bs = Inl e"
  shows "Replay_parse p bs = Inl e"
  using assms by (simp add: Replay_parse_def io_bind_def)

text \<open>
  Claim C1. A byte stream that starts with the marker \<open>BFMEREPL\<close> or \<open>BFME2RPL\<close> should
  fail as an unsupported variant (the exception "parsing for game type ... not
  implemented yet"), and a stream with an unknown tag as an unrecognized format. The
  code reads six bytes, and when they are not \<open>GENREP\<close> it reads the next six bytes and
  compares them with the two markers of eight characters, which never match: whatever
  follows the marker, decoding a stream that starts with \<open>BFMEREPL\<close> or \<open>BFME2RPL\<close>
  never raises the exception for an unsupported variant, and the two markers alone raise
  "Unrecognized replay type: PL".
\<close>

theorem BFME_markers_are_unrecognized:
  "Replay_parse p (''BFMEREPL'' @ rest) \<noteq> Inl (ReplayParserException (not_implemented_yet g))
   \<and> Replay_parse p (''BFME2RPL'' @ rest) \<noteq> Inl (ReplayParserException (not_implemented_yet g))
   \<and> Replay_parse p ''BFMEREPL'' =
       Inl (ReplayParserException (Unrecognized_replay_type (ascii ''PL'')))
   \<and> Replay_parse p ''BFME2RPL'' =
       Inl (ReplayParserException (Unrecognized_replay_type (ascii ''PL'')))"
proof (intro conjI)
  have "\<exists>e. Replay_parse_game_type (''BFMEREPL'' @ rest) = Inl e
             \<and> e \<noteq> ReplayParserException (not_implemented_yet g)"
    by (rule game_type_not_GENREP [where t = "''BFMERE''" and s = "ascii ''BFMERE''"])
       (simp_all add: decode_def)
  then show "Replay_parse p (''BFMEREPL'' @ rest)
               \<noteq> Inl (ReplayParserException (not_implemented_yet g))"
    using Replay_parse_game_type_fails by fastforce
  have "\<exists>e. Replay_parse_game_type (''BFME2RPL'' @ rest) = Inl e
             \<and> e \<noteq> ReplayParserException (not_implemented_yet g)"
    by (rule game_type_not_GENREP [where t = "''BFME2R''" and s = "ascii ''BFME2R''"])
       (simp_all add: decode_def)
  then show "Replay_parse p (''BFME2RPL'' @ rest)
               \<noteq> Inl (ReplayParserException (not_implemented_yet g))"
    using Replay_parse_game_type_fails by fastforce
  show "Replay_parse p ''BFMEREPL'' =
          Inl (ReplayParserException (Unrecognized_replay_type (ascii ''PL'')))"
    by (simp add: Replay_parse_def Replay_parse_game_type_def io_defs decode_def)
  show "Replay_parse p ''BFME2RPL'' =
          Inl (ReplayParserException (Unrecognized_replay_type (ascii ''PL'')))"
    by (simp add: Replay_parse_def Replay_parse_game_type_def io_defs decode_def)
qed

lemmas parse_defs =
  Replay_parse_def Replay_parse_game_type_def Replay_parse_timestamp_def
  ReplayTimestamp_parse_def ReplayMetadata_parse_def

lemmas example_defs = example_replay_def example_path_def example_record_def


lemmas store_defs = list_new_def list_append_def ReplayMetadata_new_def parse_entry_store_def
  sio_return_def sio_pure_def sio_bind_def ReplayMetadata_parse_store_def Replay_parse_store_def
  Replay_init_store_def replay_value_def

lemma parse_slots_store_refines:
  assumes "a < length h" and "slots m = h ! a" and "parse_slots_store a toks h = (res, h')"
  shows "h' = h[a := h' ! a]
       \<and> (case res of
            None \<Rightarrow> ReplayMetadata_parse_slots m toks = Inr (m\<lparr>slots := h' ! a\<rparr>)
          | Some e \<Rightarrow> ReplayMetadata_parse_slots m toks = Inl e)"
  using assms
proof (induction toks arbitrary: h m)
  case Nil
  then show ?case by auto
next
  case (Cons slot_raw rest)
  show ?case
  proof (cases "slot_raw = []")
    case True
    then have "parse_slots_store a rest h = (res, h')" using Cons.prems(3) by simp
    from Cons.IH [OF Cons.prems(1,2) this] show ?thesis
      using True by (cases res) simp_all
  next
    case False
    show ?thesis
    proof (cases "ReplaySlot_parse slot_raw")
      case (Inl e)
      then show ?thesis using False Cons.prems by auto
    next
      case (Inr slot)
      let ?h1 = "list_append a slot h"
      let ?m1 = "m\<lparr>slots := slots m @ [slot]\<rparr>"
      have run: "parse_slots_store a rest ?h1 = (res, h')"
        using Cons.prems(3) False Inr by simp
      have len: "a < length ?h1" using Cons.prems(1) by (simp add: list_append_def)
      have sl: "slots ?m1 = ?h1 ! a"
        using Cons.prems(1,2) by (simp add: list_append_def)
      from Cons.IH [OF len sl run]
      have frame: "h' = ?h1[a := h' ! a]"
        and res: "(case res of
            None \<Rightarrow> ReplayMetadata_parse_slots ?m1 rest = Inr (?m1\<lparr>slots := h' ! a\<rparr>)
          | Some e \<Rightarrow> ReplayMetadata_parse_slots ?m1 rest = Inl e)"
        by simp_all
      have "h' = h[a := h' ! a]"
        using frame by (simp add: list_append_def)
      moreover have "(case res of
            None \<Rightarrow> ReplayMetadata_parse_slots m (slot_raw # rest) = Inr (m\<lparr>slots := h' ! a\<rparr>)
          | Some e \<Rightarrow> ReplayMetadata_parse_slots m (slot_raw # rest) = Inl e)"
        using res False Inr by (cases res) simp_all
      ultimately show ?thesis by simp
    qed
  qed
qed

lemma parse_entry_store_refines:
  assumes "a < length h" and "parse_entry_store (m0, a) entry h = (res, h')"
  shows "h' = h[a := h' ! a]
       \<and> (case res of
            Inl e \<Rightarrow> ReplayMetadata_parse_entry (m0\<lparr>slots := h ! a\<rparr>) entry = Inl e
          | Inr obj \<Rightarrow> snd obj = a
              \<and> ReplayMetadata_parse_entry (m0\<lparr>slots := h ! a\<rparr>) entry
                   = Inr ((fst obj)\<lparr>slots := h' ! a\<rparr>))"
proof (cases "\<exists>val. split_maxsplit_1 (ord CHR ''='') entry = [ascii ''S'', val]")
  case True
  then obtain val where sp: "split_maxsplit_1 (ord CHR ''='') entry = [ascii ''S'', val]" ..
  obtain r where run: "parse_slots_store a (split (ord CHR '':'') val) h = (r, h')"
    and res: "res = (case r of None \<Rightarrow> Inr (m0, a) | Some e \<Rightarrow> Inl e)"
    using assms(2) sp
    by (auto simp: parse_entry_store_def split: prod.splits option.splits)
  have sl: "slots (m0\<lparr>slots := h ! a\<rparr>) = h ! a" by simp
  from parse_slots_store_refines [OF assms(1) sl run]
  have frame: "h' = h[a := h' ! a]"
    and pure: "(case r of
            None \<Rightarrow> ReplayMetadata_parse_slots (m0\<lparr>slots := h ! a\<rparr>) (split (ord CHR '':'') val)
                      = Inr (m0\<lparr>slots := h ! a\<rparr>\<lparr>slots := h' ! a\<rparr>)
          | Some e \<Rightarrow> ReplayMetadata_parse_slots (m0\<lparr>slots := h ! a\<rparr>) (split (ord CHR '':'') val)
                      = Inl e)"
    by simp_all
  show ?thesis
    using frame pure res sp
    by (cases r) (simp_all add: ReplayMetadata_parse_entry_def)
next
  case False
  then have h': "h' = h"
    using assms(2)
    by (auto simp: parse_entry_store_def Let_def split: list.splits if_splits)
  have "h = h[a := h ! a]" by simp
  moreover have "(case res of
            Inl e \<Rightarrow> ReplayMetadata_parse_entry (m0\<lparr>slots := h ! a\<rparr>) entry = Inl e
          | Inr obj \<Rightarrow> snd obj = a
              \<and> ReplayMetadata_parse_entry (m0\<lparr>slots := h ! a\<rparr>) entry
                   = Inr ((fst obj)\<lparr>slots := h ! a\<rparr>))"
    using assms(2) False
    by (auto simp: parse_entry_store_def ReplayMetadata_parse_entry_def Let_def and_then_def
             split: list.splits if_splits sum.splits)
  ultimately show ?thesis unfolding h' by (rule conjI)
qed

lemma parse_entries_store_refines:
  assumes "a < length h" and "parse_entries_store (m0, a) entries h = (res, h')"
  shows "h' = h[a := h' ! a]
       \<and> (case res of
            Inl e \<Rightarrow> ReplayMetadata_parse_entries (m0\<lparr>slots := h ! a\<rparr>) entries = Inl e
          | Inr obj \<Rightarrow> snd obj = a
              \<and> ReplayMetadata_parse_entries (m0\<lparr>slots := h ! a\<rparr>) entries
                   = Inr ((fst obj)\<lparr>slots := h' ! a\<rparr>))"
  using assms
proof (induction entries arbitrary: m0 h)
  case Nil
  then show ?case by auto
next
  case (Cons entry rest)
  obtain r1 h1 where step: "parse_entry_store (m0, a) entry h = (r1, h1)"
    by (cases "parse_entry_store (m0, a) entry h")
  from parse_entry_store_refines [OF Cons.prems(1) step]
  have frame1: "h1 = h[a := h1 ! a]"
    and pure1: "(case r1 of
            Inl e \<Rightarrow> ReplayMetadata_parse_entry (m0\<lparr>slots := h ! a\<rparr>) entry = Inl e
          | Inr obj \<Rightarrow> snd obj = a
              \<and> ReplayMetadata_parse_entry (m0\<lparr>slots := h ! a\<rparr>) entry
                   = Inr ((fst obj)\<lparr>slots := h1 ! a\<rparr>))"
    by simp_all
  show ?case
  proof (cases r1)
    case (Inl e)
    then show ?thesis using step Cons.prems(2) frame1 pure1 by auto
  next
    case (Inr obj)
    obtain m1 where obj: "obj = (m1, a)" using pure1 Inr by (cases obj) simp
    have run: "parse_entries_store (m1, a) rest h1 = (res, h')"
      using Cons.prems(2) step Inr obj by simp
    have len: "a < length h1" using frame1 Cons.prems(1) by (metis length_list_update)
    from Cons.IH [OF len run]
    have frame2: "h' = h1[a := h' ! a]"
      and pure2: "(case res of
            Inl e \<Rightarrow> ReplayMetadata_parse_entries (m1\<lparr>slots := h1 ! a\<rparr>) rest = Inl e
          | Inr obj \<Rightarrow> snd obj = a
              \<and> ReplayMetadata_parse_entries (m1\<lparr>slots := h1 ! a\<rparr>) rest
                   = Inr ((fst obj)\<lparr>slots := h' ! a\<rparr>))"
      by simp_all
    have frame: "h' = h[a := h' ! a]"
      using frame1 frame2 by (metis list_update_overwrite)
    have "ReplayMetadata_parse_entry (m0\<lparr>slots := h ! a\<rparr>) entry
            = Inr (m1\<lparr>slots := h1 ! a\<rparr>)"
      using pure1 Inr obj by simp
    then have eq: "ReplayMetadata_parse_entries (m0\<lparr>slots := h ! a\<rparr>) (entry # rest)
                 = ReplayMetadata_parse_entries (m1\<lparr>slots := h1 ! a\<rparr>) rest"
      by simp
    have pure: "(case res of
            Inl e \<Rightarrow> ReplayMetadata_parse_entries (m0\<lparr>slots := h ! a\<rparr>) (entry # rest) = Inl e
          | Inr obj \<Rightarrow> snd obj = a
              \<and> ReplayMetadata_parse_entries (m0\<lparr>slots := h ! a\<rparr>) (entry # rest)
                   = Inr ((fst obj)\<lparr>slots := h' ! a\<rparr>))"
      unfolding eq by (rule pure2)
    show ?thesis using frame pure by (rule conjI)
  qed
qed

lemma ReplayMetadata_parse_store_refines:
  assumes "ReplayMetadata_parse_store file h = (res, h')"
  shows "length h' = Suc (length h) \<and> take (length h) h' = h
       \<and> (case res of
            Inl e \<Rightarrow> ReplayMetadata_parse file = Inl e
          | Inr x \<Rightarrow> snd (fst x) = length h
              \<and> ReplayMetadata_parse file
                   = Inr ((fst (fst x))\<lparr>slots := h' ! length h\<rparr>, snd x))"
proof (cases "read_null_terminated_string file")
  case (Inl e)
  then show ?thesis using assms
    by (auto simp: ReplayMetadata_parse_store_def ReplayMetadata_new_def list_new_def
          ReplayMetadata_parse_def io_bind_def)
next
  case (Inr x)
  obtain raw file' where x: "x = (raw, file')" by (cases x)
  let ?entries = "filter (\<lambda>p. p \<noteq> []) (split (ord CHR '';'') raw)"
  let ?h1 = "h @ [[]]"
  obtain r where run: "parse_entries_store (ReplayMetadata_init, length h) ?entries ?h1 = (r, h')"
    and res: "res = (case r of Inl e \<Rightarrow> Inl e | Inr obj \<Rightarrow> Inr (obj, file'))"
    using assms Inr x
    by (auto simp: ReplayMetadata_parse_store_def ReplayMetadata_new_def list_new_def
             split: prod.splits sum.splits)
  have len: "length h < length ?h1" by simp
  from parse_entries_store_refines [OF len run]
  have frame: "h' = ?h1[length h := h' ! length h]"
    and pure: "(case r of
            Inl e \<Rightarrow> ReplayMetadata_parse_entries
                       (ReplayMetadata_init\<lparr>slots := ?h1 ! length h\<rparr>) ?entries = Inl e
          | Inr obj \<Rightarrow> snd obj = length h
              \<and> ReplayMetadata_parse_entries
                       (ReplayMetadata_init\<lparr>slots := ?h1 ! length h\<rparr>) ?entries
                   = Inr ((fst obj)\<lparr>slots := h' ! length h\<rparr>))"
    by simp_all
  have init: "ReplayMetadata_init\<lparr>slots := ?h1 ! length h\<rparr> = ReplayMetadata_init"
    by (simp add: ReplayMetadata_init_def)
  have h': "h' = h @ [h' ! length h]" using frame by simp
  then have "length h' = Suc (length h)" by (metis length_append_singleton)
  moreover have "take (length h) h' = h" using h' by (metis append_eq_conv_conj)
  moreover have "(case res of
            Inl e \<Rightarrow> ReplayMetadata_parse file = Inl e
          | Inr x \<Rightarrow> snd (fst x) = length h
              \<and> ReplayMetadata_parse file
                   = Inr ((fst (fst x))\<lparr>slots := h' ! length h\<rparr>, snd x))"
    using pure res Inr x unfolding init
    by (cases r)
       (simp_all add: ReplayMetadata_parse_def ReplayMetadata_parse_raw_def io_bind_def io_lift_def)
  ultimately show ?thesis by simp
qed

lemma sio_bind_pure:
  "sio_bind (sio_pure m) f file h =
     (case m file of Inl e \<Rightarrow> (Inl e, h) | Inr (v, file') \<Rightarrow> f v file' h)"
  by (simp add: sio_bind_def sio_pure_def split: sum.splits prod.splits)

lemma Replay_parse_store_refines:
  assumes "Replay_parse_store p file h = (res, h')"
  shows "take (length h) h' = h
       \<and> (case res of
            Inl e \<Rightarrow> Replay_parse p file = Inl e
          | Inr x \<Rightarrow> snd (fst x) = length h \<and> length h' = Suc (length h)
              \<and> Replay_parse p file = Inr (replay_value h' (fst x), snd x))"
  using assms
  unfolding Replay_parse_store_def Replay_parse_def sio_bind_pure
  by (auto simp: io_bind_def sio_bind_def sio_pure_def sio_return_def io_return_def io_raise_def
        replay_value_def
      split: sum.splits prod.splits if_splits
      dest!: ReplayMetadata_parse_store_refines)

lemma Replay_init_store_refines:
  assumes "Replay_init_store p (fs, h) = (res, fs', h')"
  shows "fs' = fs \<and> take (length h) h' = h
       \<and> map_sum id (replay_value h') res = fst (Replay_init p fs)
       \<and> (\<forall>x. res = Inr x \<longrightarrow> snd x = length h \<and> snd x < length h')"
proof (cases "fs p")
  case None
  then show ?thesis using assms by (auto simp: Replay_init_store_def Replay_init_def)
next
  case (Some content)
  obtain r h1 where run: "Replay_parse_store p content h = (r, h1)"
    by (cases "Replay_parse_store p content h")
  from Replay_parse_store_refines [OF run]
  have frame: "take (length h) h1 = h"
    and pure: "(case r of
            Inl e \<Rightarrow> Replay_parse p content = Inl e
          | Inr x \<Rightarrow> snd (fst x) = length h \<and> length h1 = Suc (length h)
              \<and> Replay_parse p content = Inr (replay_value h1 (fst x), snd x))"
    by simp_all
  show ?thesis
  proof (cases r)
    case (Inl e)
    then show ?thesis using assms Some run frame pure
      by (auto simp: Replay_init_store_def Replay_init_def)
  next
    case (Inr x)
    then show ?thesis using assms Some run frame pure
      by (cases x) (auto simp: Replay_init_store_def Replay_init_def)
  qed
qed

text \<open>
  Claim C8. Decoding the same byte stream twice produces two field-wise equal records,
  and nothing that the first call leaves behind changes the second. Whatever the store
  of list objects is before the first call \<open>Replay(path)\<close>, the two calls return the
  same exception, or two records that are equal when they are read in the final store;
  the second call does not change the record that the first one returned; both are the
  record that the decoder without a store computes from the content of the file; the
  files are left as they were; and the two records do not share their list of slots.
\<close>

theorem decoding_twice_gives_equal_records:
  assumes "Replay_init_store p (fs, h) = (r1, fs1, h1)"
      and "Replay_init_store p (fs1, h1) = (r2, fs2, h2)"
  shows "map_sum id (replay_value h2) r1 = map_sum id (replay_value h2) r2
       \<and> map_sum id (replay_value h2) r1 = map_sum id (replay_value h1) r1
       \<and> map_sum id (replay_value h1) r1 = fst (Replay_init p fs)
       \<and> fs2 = fs
       \<and> (\<forall>x y. r1 = Inr x \<and> r2 = Inr y \<longrightarrow> snd x \<noteq> snd y)"
proof -
  from Replay_init_store_refines [OF assms(1)]
  have fs1: "fs1 = fs" and v1: "map_sum id (replay_value h1) r1 = fst (Replay_init p fs)"
    and a1: "\<forall>x. r1 = Inr x \<longrightarrow> snd x = length h \<and> snd x < length h1"
    by simp_all
  from Replay_init_store_refines [OF assms(2)]
  have fs2: "fs2 = fs1" and frame: "take (length h1) h2 = h1"
    and v2: "map_sum id (replay_value h2) r2 = fst (Replay_init p fs1)"
    and a2: "\<forall>x. r2 = Inr x \<longrightarrow> snd x = length h1 \<and> snd x < length h2"
    by simp_all
  have same: "map_sum id (replay_value h2) r1 = map_sum id (replay_value h1) r1"
  proof (cases r1)
    case (Inl e)
    then show ?thesis by simp
  next
    case (Inr x)
    then have "snd x < length h1" using a1 by simp
    then have "h2 ! snd x = h1 ! snd x" using frame by (metis nth_take)
    then show ?thesis using Inr by (simp add: replay_value_def)
  qed
  have "\<forall>x y. r1 = Inr x \<and> r2 = Inr y \<longrightarrow> snd x \<noteq> snd y"
    using a1 a2 by auto
  then show ?thesis using same v1 v2 fs1 fs2 by simp
qed

theorem decoding_twice_gives_equal_records_witness:
  "Replay_init_store example_path
     ([example_path \<mapsto> example_replay [] ''MS=7;S=X:CE,1,2,3,4''], [])
     = (Inr (example_record [] (ReplayMetadata_init\<lparr>map_size := 7\<rparr>), 0),
        [example_path \<mapsto> example_replay [] ''MS=7;S=X:CE,1,2,3,4''],
        [[ReplaySlot_init EMPTY, computer_slot]])
   \<and> Replay_init_store example_path
     ([example_path \<mapsto> example_replay [] ''MS=7;S=X:CE,1,2,3,4''],
      [[ReplaySlot_init EMPTY, computer_slot]])
     = (Inr (example_record [] (ReplayMetadata_init\<lparr>map_size := 7\<rparr>), 1),
        [example_path \<mapsto> example_replay [] ''MS=7;S=X:CE,1,2,3,4''],
        [[ReplaySlot_init EMPTY, computer_slot], [ReplaySlot_init EMPTY, computer_slot]])
   \<and> replay_value [[ReplaySlot_init EMPTY, computer_slot], [ReplaySlot_init EMPTY, computer_slot]]
        (example_record [] (ReplayMetadata_init\<lparr>map_size := 7\<rparr>), 0)
     = replay_value [[ReplaySlot_init EMPTY, computer_slot], [ReplaySlot_init EMPTY, computer_slot]]
        (example_record [] (ReplayMetadata_init\<lparr>map_size := 7\<rparr>), 1)"
proof -
  let ?fs = "[example_path \<mapsto> example_replay [] ''MS=7;S=X:CE,1,2,3,4'']"
  let ?r = "example_record [] (ReplayMetadata_init\<lparr>map_size := 7\<rparr>)"
  let ?l = "[ReplaySlot_init EMPTY, computer_slot]"
  have run: "Replay_parse_store example_path (example_replay [] ''MS=7;S=X:CE,1,2,3,4'') h
               = (Inr ((?r, length h), []), h @ [?l])" for h
    by (simp add: store_defs example_defs parse_defs metadata_defs io_defs read_defs
          slot_defs int_defs computer_slot_def)
  have a: "Replay_init_store example_path (?fs, []) = (Inr (?r, 0), ?fs, [?l])"
    using run [of "[]"] by (simp add: Replay_init_store_def)
  have b: "Replay_init_store example_path (?fs, [?l]) = (Inr (?r, 1), ?fs, [?l, ?l])"
    using run [of "[?l]"] by (simp add: Replay_init_store_def)
  show ?thesis using a b decoding_twice_gives_equal_records [OF a b] by simp
qed

section \<open>Properties of the database\<close>












section \<open>Truncated input\<close>


lemma on_cut_FalseD:
  assumes "on_cut False P" and "P s = Inr (v, s')"
  obtains c where "s = c @ s'"
    and "\<And>t. (s' = [] \<longrightarrow> t = []) \<Longrightarrow> P (c @ t) = Inr (v, t)"
    and "\<And>n. n < length c \<Longrightarrow> \<exists>e. P (take n c) = Inl e"
proof -
  from assms have "\<exists>c. s = c @ s'
           \<and> (\<forall>t. (s' = [] \<longrightarrow> t = []) \<longrightarrow> P (c @ t) = Inr (v, t))
           \<and> (\<forall>n<length c. \<exists>e. P (take n c) = Inl e)"
    unfolding on_cut_def by simp
  then show ?thesis using that by blast
qed


lemma on_cut_weaken:
  assumes "on_cut False P"
  shows "on_cut m P"
  unfolding on_cut_def
proof (intro allI impI)
  fix s v s' assume p: "P s = Inr (v, s')"
  from on_cut_FalseD [OF assms p] obtain c where c: "s = c @ s'"
    and a: "\<And>t. (s' = [] \<longrightarrow> t = []) \<Longrightarrow> P (c @ t) = Inr (v, t)"
    and b: "\<And>n. n < length c \<Longrightarrow> \<exists>e. P (take n c) = Inl e"
    by blast
  have "\<forall>t. (s' = [] \<longrightarrow> t = []) \<longrightarrow> P (c @ t) = Inr (v, t)"
    using a by blast
  moreover have "\<forall>n<length c. (\<exists>e. P (take n c) = Inl e)
                  \<or> (m \<and> (\<exists>v'. P (take n c) = Inr (v', [])))"
    using b by blast
  ultimately show "\<exists>c. s = c @ s'
           \<and> (\<forall>t. (s' = [] \<longrightarrow> t = []) \<longrightarrow> P (c @ t) = Inr (v, t))
           \<and> (\<forall>n<length c. (\<exists>e. P (take n c) = Inl e)
                  \<or> (m \<and> (\<exists>v'. P (take n c) = Inr (v', []))))"
    using c by (intro exI [of _ c] conjI)
qed
















































end
